theory Spec2Isabelle
  imports Complex_Main "HOL-Library.Word"
begin

unbundle bit_operations_syntax

section \<open>The rlottie scene model (src/lottie/lottiemodel.h)\<close>

text \<open>
  The model header works on C++ \<open>float\<close> values. They are embedded as \<^typ>\<open>real\<close>: a
  stored value is the real number it denotes, comparisons and \<open>min\<close>/\<open>max\<close> are the
  exact ones, and the conversion of an \<open>int\<close> frame number to \<open>float\<close> in a comparison
  is \<^term>\<open>real_of_int\<close>. Where a property below is about the value that float
  arithmetic computes (the sums of gradient data and the blend of path points), every
  operation rounds its result; elsewhere the arithmetic is the exact one. Infinities and
  NaN are outside the model.
  Undefined behaviour of the C++ (\<open>front()\<close> or \<open>back()\<close> of an empty vector, an index
  past the end of a vector) is the value \<open>None\<close>.
\<close>

subsection \<open>Float rounding\<close>

text \<open>The nearest integer, with ties to the even one.\<close>

definition round_even :: "real \<Rightarrow> int" where
  "round_even x =
     (let f = \<lfloor>x\<rfloor>; d = x - real_of_int f
      in if d < 1 / 2 then f else if d > 1 / 2 then f + 1 else if even f then f else f + 1)"

text \<open>
  The rounding of IEEE binary32, the \<open>float\<close> of the source: the nearest number with
  24 significant bits, ties to even, with the spacing fixed below the exponent \<open>-126\<close>.
  A result beyond the largest float is infinite in C++ and is not modelled: the
  properties below are stated for results within the range.
\<close>

definition float_round :: "real \<Rightarrow> real" where
  "float_round x =
     (if x = 0 then 0
      else let e = max \<lfloor>log 2 \<bar>x\<bar>\<rfloor> (- 126); u = 2 powi (e - 23)
           in u * real_of_int (round_even (x / u)))"

text \<open>
  \<open>FLT_MAX\<close>, the largest float, and the reals that are floats: those that rounding
  leaves as they are, within the range.
\<close>

definition FLT_MAX :: real where
  "FLT_MAX = (2 - 2 powi (- 23)) * 2 powi 127"

definition is_float :: "real \<Rightarrow> bool" where
  "is_float x = (float_round x = x \<and> \<bar>x\<bar> \<le> FLT_MAX)"

subsection \<open>Value, KeyFrames, Property\<close>

text \<open>\<open>struct Value<T, Tag>\<close>: the start and end value of one keyframe segment.\<close>

record 'a Value =
  Value_start :: 'a
  Value_end :: 'a

text \<open>
  \<open>struct KeyFrames<T, Tag>::Frame\<close>. \<open>VInterpolator\<close> is declared in vinterpolator.h,
  which is not part of the sources: the easing curve \<open>interpolator_->value\<close> is kept as
  the function it computes, \<open>None\<close> for the null pointer.
\<close>

record 'a Frame =
  Frame_start :: real
  Frame_end :: real
  Frame_interpolator :: "(real \<Rightarrow> real) option"
  Frame_value :: "'a Value"

text \<open>\<open>template <typename T> T lerp(start, end, t)\<close> on \<open>float\<close>.\<close>

definition lerp :: "real \<Rightarrow> real \<Rightarrow> real \<Rightarrow> real" where
  "lerp start end t = start + t * (end - start)"

text \<open>
  \<open>Value<T>::at\<close> for the plain tag is \<open>lerp(start_, end_, t)\<close>; the \<open>Position\<close>
  specialisation samples a \<open>VBezier\<close> (vbezier.h, not part of the sources). The functions
  below take \<open>at\<close> as a parameter, so that they cover every instance of the template.
\<close>

definition Value_at :: "real Value \<Rightarrow> real \<Rightarrow> real" where
  "Value_at v t = lerp (Value_start v) (Value_end v) t"

text \<open>\<open>Frame::progress(int frameNo)\<close> and \<open>Frame::value(int frameNo)\<close>.\<close>

definition Frame_progress :: "'a Frame \<Rightarrow> int \<Rightarrow> real" where
  "Frame_progress fr frameNo =
     (case Frame_interpolator fr of
        Some interp \<Rightarrow> interp ((real_of_int frameNo - Frame_start fr) / (Frame_end fr - Frame_start fr))
      | None \<Rightarrow> 0)"

definition Frame_value_at :: "('a Value \<Rightarrow> real \<Rightarrow> 'a) \<Rightarrow> 'a Frame \<Rightarrow> int \<Rightarrow> 'a" where
  "Frame_value_at atT fr frameNo = atT (Frame_value fr) (Frame_progress fr frameNo)"

text \<open>
  The \<open>for\<close> loop of \<open>KeyFrames::value\<close>: the first frame whose half-open range holds
  \<open>frameNo\<close> answers; \<open>dflt\<close> is the value-initialised \<open>T\<close> of the final \<open>return {}\<close>.
\<close>

fun KeyFrames_scan :: "('a Value \<Rightarrow> real \<Rightarrow> 'a) \<Rightarrow> 'a \<Rightarrow> 'a Frame list \<Rightarrow> int \<Rightarrow> 'a" where
  "KeyFrames_scan atT dflt [] frameNo = dflt"
| "KeyFrames_scan atT dflt (keyFrame # rest) frameNo =
     (if real_of_int frameNo \<ge> Frame_start keyFrame \<and> real_of_int frameNo < Frame_end keyFrame
      then Frame_value_at atT keyFrame frameNo
      else KeyFrames_scan atT dflt rest frameNo)"

text \<open>\<open>KeyFrames::value(int frameNo)\<close>.\<close>

definition KeyFrames_value :: "('a Value \<Rightarrow> real \<Rightarrow> 'a) \<Rightarrow> 'a \<Rightarrow> 'a Frame list \<Rightarrow> int \<Rightarrow> 'a option" where
  "KeyFrames_value atT dflt frames frameNo =
     (if frames = [] then None
      else if Frame_start (hd frames) \<ge> real_of_int frameNo
        then Some (Value_start (Frame_value (hd frames)))
      else if Frame_end (last frames) \<le> real_of_int frameNo
        then Some (Value_end (Frame_value (last frames)))
      else Some (KeyFrames_scan atT dflt frames frameNo))"

text \<open>\<open>KeyFrames::changed(int prevFrame, int curFrame)\<close>.\<close>

definition KeyFrames_changed :: "'a Frame list \<Rightarrow> int \<Rightarrow> int \<Rightarrow> bool option" where
  "KeyFrames_changed frames prevFrame curFrame =
     (if frames = [] then None
      else let first = Frame_start (hd frames); lastE = Frame_end (last frames)
           in Some (\<not> ((first > real_of_int prevFrame \<and> first > real_of_int curFrame) \<or>
                        (lastE < real_of_int prevFrame \<and> lastE < real_of_int curFrame))))"

text \<open>
  \<open>class Property<T, Tag>\<close>: the union of a constant and an animation, discriminated by
  \<open>isValue_\<close>.
\<close>

datatype 'a Property = Static 'a | Animated "'a Frame list"

fun isStatic :: "'a Property \<Rightarrow> bool" where
  "isStatic (Static v) = True"
| "isStatic (Animated frames) = False"

fun Property_value :: "('a Value \<Rightarrow> real \<Rightarrow> 'a) \<Rightarrow> 'a \<Rightarrow> 'a Property \<Rightarrow> int \<Rightarrow> 'a option" where
  "Property_value atT dflt (Static v) frameNo = Some v"
| "Property_value atT dflt (Animated frames) frameNo = KeyFrames_value atT dflt frames frameNo"

fun Property_changed :: "'a Property \<Rightarrow> int \<Rightarrow> int \<Rightarrow> bool option" where
  "Property_changed (Static v) prevFrame curFrame = Some False"
| "Property_changed (Animated frames) prevFrame curFrame = KeyFrames_changed frames prevFrame curFrame"


subsection \<open>Points, colours and paths\<close>

text \<open>
  Modelled from the spec: \<open>VPointF\<close> (vpoint.h) is not part of the sources. It is the pair
  of coordinates with the componentwise \<open>+\<close>, \<open>-\<close> and product with a scalar that the
  spec's pairwise blend of matching points uses.
\<close>

record VPointF =
  mx :: real
  my :: real

definition VPointF_add :: "VPointF \<Rightarrow> VPointF \<Rightarrow> VPointF" where
  "VPointF_add p q = \<lparr>mx = mx p + mx q, my = my p + my q\<rparr>"

definition VPointF_sub :: "VPointF \<Rightarrow> VPointF \<Rightarrow> VPointF" where
  "VPointF_sub p q = \<lparr>mx = mx p - mx q, my = my p - my q\<rparr>"

definition VPointF_scale :: "real \<Rightarrow> VPointF \<Rightarrow> VPointF" where
  "VPointF_scale t p = \<lparr>mx = t * mx p, my = t * my p\<rparr>"

text \<open>\<open>lerp\<close> at \<open>T = VPointF\<close>.\<close>

definition lerp_point :: "VPointF \<Rightarrow> VPointF \<Rightarrow> real \<Rightarrow> VPointF" where
  "lerp_point start end t = VPointF_add start (VPointF_scale t (VPointF_sub end start))"

text \<open>\<open>class Color\<close> with its \<open>operator+\<close>, \<open>operator-\<close> and \<open>operator*\<close>.\<close>

record Color =
  Color_r :: real
  Color_g :: real
  Color_b :: real

definition Color_sub :: "Color \<Rightarrow> Color \<Rightarrow> Color" where
  "Color_sub c1 c2 = \<lparr>Color_r = Color_r c1 - Color_r c2, Color_g = Color_g c1 - Color_g c2, Color_b = Color_b c1 - Color_b c2\<rparr>"

definition Color_add :: "Color \<Rightarrow> Color \<Rightarrow> Color" where
  "Color_add c1 c2 = \<lparr>Color_r = Color_r c1 + Color_r c2, Color_g = Color_g c1 + Color_g c2, Color_b = Color_b c1 + Color_b c2\<rparr>"

definition Color_scale :: "real \<Rightarrow> Color \<Rightarrow> Color" where
  "Color_scale m c = \<lparr>Color_r = Color_r c * m, Color_g = Color_g c * m, Color_b = Color_b c * m\<rparr>"

definition lerp_color :: "Color \<Rightarrow> Color \<Rightarrow> real \<Rightarrow> Color" where
  "lerp_color start end t = Color_add start (Color_scale t (Color_sub end start))"

text \<open>
  Modelled from the spec: \<open>VPath\<close> (vpath.h) is not part of the sources. A path buffer is
  the sequence of drawing calls made on it since the last \<open>reset()\<close>; \<open>reserve\<close> changes
  nothing that can be observed.
\<close>

datatype Element = MoveTo VPointF | CubicTo VPointF VPointF VPointF | Close

type_synonym VPath = "Element list"

text \<open>The control points held by a path, and whether it was closed.\<close>

fun Element_points :: "Element \<Rightarrow> VPointF list" where
  "Element_points (MoveTo p) = [p]"
| "Element_points (CubicTo c1 c2 e) = [c1, c2, e]"
| "Element_points Close = []"

definition VPath_points :: "VPath \<Rightarrow> VPointF list" where
  "VPath_points path = concat (map Element_points path)"

definition VPath_closed :: "VPath \<Rightarrow> bool" where
  "VPath_closed path = (Close \<in> set path)"

text \<open>\<open>struct PathData\<close>.\<close>

record PathData =
  mPoints :: "VPointF list"
  mClosed :: bool

text \<open>
  The expression \<open>start + t * (end - start)\<close> of \<open>PathData::lerp\<close>, with \<open>float t\<close>.
  Modelled from the spec: the coordinates of \<open>VPointF\<close> (vpoint.h, not part of the
  sources) are \<open>float\<close>, so each of the three operations rounds its result, on both
  coordinates.
\<close>

definition blend_coord :: "real \<Rightarrow> real \<Rightarrow> real \<Rightarrow> real" where
  "blend_coord start end t = float_round (start + float_round (t * float_round (end - start)))"

definition blend_point :: "VPointF \<Rightarrow> VPointF \<Rightarrow> real \<Rightarrow> VPointF" where
  "blend_point start end t =
     \<lparr>mx = blend_coord (mx start) (mx end) t, my = blend_coord (my start) (my end) t\<rparr>"

text \<open>
  The loop \<open>for (size_t i = 1; i < size; i += 3) result.cubicTo(...)\<close> of
  \<open>PathData::lerp\<close>. It reads the indices \<open>i\<close>, \<open>i + 1\<close> and \<open>i + 2\<close> of both vectors;
  a read past the end of either is undefined behaviour, \<open>None\<close>.
\<close>

function lerp_cubics :: "VPointF list \<Rightarrow> VPointF list \<Rightarrow> real \<Rightarrow> nat \<Rightarrow> nat \<Rightarrow> VPath option" where
  "lerp_cubics sp ep t i sz =
     (if i < sz then
        (if i + 2 < length sp \<and> i + 2 < length ep then
           (case lerp_cubics sp ep t (i + 3) sz of
              None \<Rightarrow> None
            | Some rest \<Rightarrow>
                Some (CubicTo (blend_point (sp ! i) (ep ! i) t)
                              (blend_point (sp ! (i + 1)) (ep ! (i + 1)) t)
                              (blend_point (sp ! (i + 2)) (ep ! (i + 2)) t) # rest))
         else None)
      else Some [])"
  by pat_completeness auto
termination
  by (relation "measure (\<lambda>(sp, ep, t, i, sz). sz - i)") auto

text \<open>\<open>PathData::lerp(start, end, t, result)\<close>: the content of \<open>result\<close> afterwards.\<close>

definition PathData_lerp :: "PathData \<Rightarrow> PathData \<Rightarrow> real \<Rightarrow> VPath option" where
  "PathData_lerp start end t =
     (if mPoints start = [] \<or> mPoints end = [] then Some []
      else
        let sz = min (length (mPoints start)) (length (mPoints end)) in
        (case lerp_cubics (mPoints start) (mPoints end) t 1 sz of
           None \<Rightarrow> None
         | Some cubics \<Rightarrow>
             Some (MoveTo (blend_point (mPoints start ! 0) (mPoints end ! 0) t) # cubics
                   @ (if mClosed start then [Close] else []))))"

text \<open>The loop of \<open>PathData::toPath\<close> and the function itself.\<close>

function toPath_cubics :: "VPointF list \<Rightarrow> nat \<Rightarrow> nat \<Rightarrow> VPath option" where
  "toPath_cubics points i sz =
     (if i < sz then
        (if i + 2 < length points then
           (case toPath_cubics points (i + 3) sz of
              None \<Rightarrow> None
            | Some rest \<Rightarrow> Some (CubicTo (points ! i) (points ! (i + 1)) (points ! (i + 2)) # rest))
         else None)
      else Some [])"
  by pat_completeness auto
termination
  by (relation "measure (\<lambda>(points, i, sz). sz - i)") auto

definition PathData_toPath :: "PathData \<Rightarrow> VPath option" where
  "PathData_toPath pd =
     (if mPoints pd = [] then Some []
      else
        (case toPath_cubics (mPoints pd) 1 (length (mPoints pd)) of
           None \<Rightarrow> None
         | Some cubics \<Rightarrow>
             Some (MoveTo (mPoints pd ! 0) # cubics @ (if mClosed pd then [Close] else []))))"


subsection \<open>Text documents, animators and the per-character snapshot\<close>

type_synonym u8 = "8 word"
type_synonym u32 = "32 word"

text \<open>
  \<open>class Unicode\<close>: the decoded code points (\<open>None\<close> for the null \<open>unique_ptr\<close>), the
  UTF-8 bytes and the number of code points.
\<close>

record Unicode =
  mUnicodeText :: "u32 list option"
  mUtf8Text :: "u8 list"
  mUnicodeLength :: nat

text \<open>\<open>Unicode() = default\<close>.\<close>

definition Unicode_default :: Unicode where
  "Unicode_default = \<lparr>mUnicodeText = None, mUtf8Text = [], mUnicodeLength = 0\<rparr>"

datatype Justification = Justification_Left | Justification_Right | Justification_Center

text \<open>\<open>struct CharAnimatedProperties\<close> and its default member initialisers.\<close>

record CharAnimatedProperties =
  opacity :: real
  rotation :: real
  tracking :: real
  strokeWidth :: real
  position :: VPointF
  scale :: VPointF
  anchor :: VPointF
  fillColor :: Color
  strokeColor :: Color

definition CharAnimatedProperties_default :: CharAnimatedProperties where
  "CharAnimatedProperties_default =
     \<lparr>opacity = 100, rotation = 0, tracking = 0, strokeWidth = 0,
      position = \<lparr>mx = 0, my = 0\<rparr>, scale = \<lparr>mx = 100, my = 100\<rparr>, anchor = \<lparr>mx = 0, my = 0\<rparr>,
      fillColor = \<lparr>Color_r = 0, Color_g = 0, Color_b = 0\<rparr>,
      strokeColor = \<lparr>Color_r = 0, Color_g = 0, Color_b = 0\<rparr>\<rparr>"

text \<open>\<open>struct TextData\<close> and its default member initialisers.\<close>

record TextData =
  strokeOverFill :: bool
  justification :: Justification
  fontSize :: int
  ascent :: real
  lineHeight :: real
  baselineShift :: real
  charAnimPropList :: "CharAnimatedProperties list"

definition TextData_default :: TextData where
  "TextData_default =
     \<lparr>strokeOverFill = False, justification = Justification_Left, fontSize = 0, ascent = 0,
      lineHeight = 0, baselineShift = 0, charAnimPropList = []\<rparr>"

text \<open>\<open>class TextDocument\<close>.\<close>

record TextDocument =
  mTime :: int
  mSize :: int
  mFont :: string
  mText :: Unicode
  mJustification :: Justification
  mTracking :: real
  mLineHeight :: real
  mBaselineShift :: real
  mFillColor :: Color
  mStrokeColor :: Color
  mStrokeWidth :: real
  mStrokeOverFill :: bool

text \<open>\<open>class PropertyText\<close>: the hand-written variant over the animatable text properties.\<close>

datatype PropertyText =
    Opacity "real Property"
  | Rotation "real Property"
  | Tracking "real Property"
  | StrokeWidth "real Property"
  | Position "VPointF Property"
  | Scale "VPointF Property"
  | Anchor "VPointF Property"
  | StrokeColor "Color Property"
  | FillColor "Color Property"

text \<open>\<open>class TextAnimator\<close>.\<close>

record TextAnimator =
  mName :: string
  mAnimatedProperties :: "PropertyText list"
  mRangeType :: int
  mRangeUnit :: int
  mRangeStart :: "real Property"
  mRangeEnd :: "real Property"
  mHasRange :: bool

text \<open>\<open>class TextLayerData\<close>.\<close>

record TextLayerData =
  mTextDocument :: "TextDocument list"
  mTextAnimator :: "TextAnimator list"

text \<open>
  \<open>Property<T>::value(int frameNo)\<close> at the three value types of the text properties;
  the last argument of \<^const>\<open>Property_value\<close> is the value-initialised \<open>T\<close>
  (\<open>Color()\<close> is white).
\<close>

definition value_float :: "real Property \<Rightarrow> int \<Rightarrow> real option" where
  "value_float p frameNo = Property_value Value_at 0 p frameNo"

definition value_point :: "VPointF Property \<Rightarrow> int \<Rightarrow> VPointF option" where
  "value_point p frameNo =
     Property_value (\<lambda>v t. lerp_point (Value_start v) (Value_end v) t) \<lparr>mx = 0, my = 0\<rparr> p frameNo"

definition value_color :: "Color Property \<Rightarrow> int \<Rightarrow> Color option" where
  "value_color p frameNo =
     Property_value (\<lambda>v t. lerp_color (Value_start v) (Value_end v) t)
       \<lparr>Color_r = 1, Color_g = 1, Color_b = 1\<rparr> p frameNo"

text \<open>\<open>TextLayerData::textDocument(int frameNo)\<close>: the loop, then \<open>mTextDocument.back()\<close>.\<close>

fun textDocument_scan :: "TextDocument list \<Rightarrow> int \<Rightarrow> TextDocument option" where
  "textDocument_scan [] frameNo = None"
| "textDocument_scan (doc # rest) frameNo =
     (if mTime doc \<ge> frameNo then Some doc else textDocument_scan rest frameNo)"

definition textDocument :: "TextLayerData \<Rightarrow> int \<Rightarrow> TextDocument option" where
  "textDocument tld frameNo =
     (case textDocument_scan (mTextDocument tld) frameNo of
        Some doc \<Rightarrow> Some doc
      | None \<Rightarrow> if mTextDocument tld = [] then None else Some (last (mTextDocument tld)))"

text \<open>\<open>TextLayerData::isStatic()\<close> and \<open>TextLayerData::hasRange()\<close>.\<close>

definition TextLayerData_isStatic :: "TextLayerData \<Rightarrow> bool" where
  "TextLayerData_isStatic tld =
     (if mTextAnimator tld = [] \<and> length (mTextDocument tld) \<le> 1 then True else False)"

fun hasRange_scan :: "TextAnimator list \<Rightarrow> bool" where
  "hasRange_scan [] = False"
| "hasRange_scan (textAnim # rest) = (if mHasRange textAnim then True else hasRange_scan rest)"

definition hasRange :: "TextLayerData \<Rightarrow> bool" where
  "hasRange tld = (if mTextAnimator tld = [] then False else hasRange_scan (mTextAnimator tld))"

text \<open>
  The five-way classification of \<open>getTextData\<close> (the \<open>if\<close> chain that sets \<open>progress\<close>)
  for the character index \<open>i\<close> and the selector range in index units.
\<close>

definition rangeProgress :: "real \<Rightarrow> real \<Rightarrow> int \<Rightarrow> real" where
  "rangeProgress rangeStartIndex rangeEndIndex i =
     (if rangeStartIndex \<le> real_of_int i \<and> real_of_int (i + 1) \<le> rangeEndIndex then 1
      else if rangeStartIndex \<ge> real_of_int i \<and> rangeEndIndex \<le> real_of_int (i + 1)
        then rangeEndIndex - rangeStartIndex
      else if rangeStartIndex \<le> real_of_int i \<and> rangeEndIndex \<ge> real_of_int i \<and>
              rangeEndIndex \<le> real_of_int (i + 1)
        then rangeEndIndex - real_of_int i
      else if rangeStartIndex \<ge> real_of_int i \<and> rangeStartIndex \<le> real_of_int (i + 1) \<and>
              rangeEndIndex \<ge> real_of_int (i + 1)
        then real_of_int (i + 1) - rangeStartIndex
      else 0)"

text \<open>The \<open>switch\<close> over the property type: one animated property blended into \<open>animProp\<close>.\<close>

fun applyProperty :: "int \<Rightarrow> real \<Rightarrow> CharAnimatedProperties \<Rightarrow> PropertyText \<Rightarrow> CharAnimatedProperties option" where
  "applyProperty frameNo progress animProp (Opacity p) =
     map_option (\<lambda>v. animProp\<lparr>opacity := lerp (opacity animProp) v progress\<rparr>) (value_float p frameNo)"
| "applyProperty frameNo progress animProp (Rotation p) =
     map_option (\<lambda>v. animProp\<lparr>rotation := lerp (rotation animProp) v progress\<rparr>) (value_float p frameNo)"
| "applyProperty frameNo progress animProp (Tracking p) =
     map_option (\<lambda>v. animProp\<lparr>tracking := lerp (tracking animProp) v progress\<rparr>) (value_float p frameNo)"
| "applyProperty frameNo progress animProp (StrokeWidth p) =
     map_option (\<lambda>v. animProp\<lparr>strokeWidth := lerp (strokeWidth animProp) v progress\<rparr>) (value_float p frameNo)"
| "applyProperty frameNo progress animProp (Position p) =
     map_option (\<lambda>v. animProp\<lparr>position := lerp_point (position animProp) v progress\<rparr>) (value_point p frameNo)"
| "applyProperty frameNo progress animProp (Scale p) =
     map_option (\<lambda>v. animProp\<lparr>scale := lerp_point (scale animProp) v progress\<rparr>) (value_point p frameNo)"
| "applyProperty frameNo progress animProp (Anchor p) =
     map_option (\<lambda>v. animProp\<lparr>anchor := lerp_point (anchor animProp) v progress\<rparr>) (value_point p frameNo)"
| "applyProperty frameNo progress animProp (FillColor p) =
     map_option (\<lambda>v. animProp\<lparr>fillColor := lerp_color (fillColor animProp) v progress\<rparr>) (value_color p frameNo)"
| "applyProperty frameNo progress animProp (StrokeColor p) =
     map_option (\<lambda>v. animProp\<lparr>strokeColor := lerp_color (strokeColor animProp) v progress\<rparr>) (value_color p frameNo)"

text \<open>\<open>for (auto &property : textAnim.mAnimatedProperties)\<close>.\<close>

fun applyProperties :: "int \<Rightarrow> real \<Rightarrow> CharAnimatedProperties \<Rightarrow> PropertyText list \<Rightarrow> CharAnimatedProperties option" where
  "applyProperties frameNo progress animProp [] = Some animProp"
| "applyProperties frameNo progress animProp (property # rest) =
     (case applyProperty frameNo progress animProp property of
        None \<Rightarrow> None
      | Some animProp' \<Rightarrow> applyProperties frameNo progress animProp' rest)"

text \<open>The body of \<open>for (auto &textAnim : mTextAnimator)\<close> for one animator.\<close>

definition applyAnimator :: "int \<Rightarrow> int \<Rightarrow> int \<Rightarrow> CharAnimatedProperties \<Rightarrow> TextAnimator \<Rightarrow> CharAnimatedProperties option" where
  "applyAnimator frameNo textLength i animProp textAnim =
     (case value_float (mRangeStart textAnim) frameNo of
        None \<Rightarrow> None
      | Some rangeStart0 \<Rightarrow>
     (case value_float (mRangeEnd textAnim) frameNo of
        None \<Rightarrow> None
      | Some rangeEnd0 \<Rightarrow>
          let rangeStartIndex =
                (if mRangeUnit textAnim = 1 then rangeStart0 / 100 * real_of_int textLength else rangeStart0);
              rangeEndIndex =
                (if mRangeUnit textAnim = 1 then rangeEnd0 / 100 * real_of_int textLength else rangeEnd0);
              progress = rangeProgress rangeStartIndex rangeEndIndex i
          in if progress > 0
             then applyProperties frameNo progress animProp (mAnimatedProperties textAnim)
             else Some animProp))"

fun applyAnimators :: "int \<Rightarrow> int \<Rightarrow> int \<Rightarrow> CharAnimatedProperties \<Rightarrow> TextAnimator list \<Rightarrow> CharAnimatedProperties option" where
  "applyAnimators frameNo textLength i animProp [] = Some animProp"
| "applyAnimators frameNo textLength i animProp (textAnim # rest) =
     (case applyAnimator frameNo textLength i animProp textAnim of
        None \<Rightarrow> None
      | Some animProp' \<Rightarrow> applyAnimators frameNo textLength i animProp' rest)"

text \<open>The record that one iteration of the character loop appends.\<close>

definition charRecord :: "TextLayerData \<Rightarrow> TextDocument \<Rightarrow> int \<Rightarrow> int \<Rightarrow> int \<Rightarrow> CharAnimatedProperties option" where
  "charRecord tld doc frameNo textLength i =
     (let animProp = CharAnimatedProperties_default
            \<lparr>strokeWidth := mStrokeWidth doc, fillColor := mFillColor doc,
             strokeColor := mStrokeColor doc\<rparr>
      in if mTextAnimator tld \<noteq> []
         then applyAnimators frameNo textLength i animProp (mTextAnimator tld)
         else Some animProp)"

text \<open>\<open>for (int i = 0; i < textLength; i++)\<close>, appending to \<open>obj.charAnimPropList\<close>.\<close>

function charLoop :: "TextLayerData \<Rightarrow> TextDocument \<Rightarrow> int \<Rightarrow> int \<Rightarrow> int \<Rightarrow> CharAnimatedProperties list \<Rightarrow> CharAnimatedProperties list option" where
  "charLoop tld doc frameNo textLength i acc =
     (if i < textLength then
        (case charRecord tld doc frameNo textLength i of
           None \<Rightarrow> None
         | Some animProp \<Rightarrow> charLoop tld doc frameNo textLength (i + 1) (acc @ [animProp]))
      else Some acc)"
  by pat_completeness auto
termination
  by (relation "measure (\<lambda>(tld, doc, frameNo, textLength, i, acc). nat (textLength - i))") auto

text \<open>\<open>TextLayerData::getTextData(TextData &obj, int frameNo)\<close>: \<open>obj\<close> afterwards.\<close>

definition getTextData :: "TextLayerData \<Rightarrow> TextData \<Rightarrow> int \<Rightarrow> TextData option" where
  "getTextData tld obj frameNo =
     (case textDocument tld frameNo of
        None \<Rightarrow> None
      | Some doc \<Rightarrow>
          let obj1 = obj\<lparr>fontSize := mSize doc, justification := mJustification doc,
                         lineHeight := mLineHeight doc, baselineShift := mBaselineShift doc,
                         strokeOverFill := mStrokeOverFill doc\<rparr>;
              textLength = (if TextLayerData_isStatic tld \<or> \<not> hasRange tld then 1
                            else int (mUnicodeLength (mText doc)))
          in (case charLoop tld doc frameNo textLength 0 (charAnimPropList obj1) of
                None \<Rightarrow> None
              | Some l \<Rightarrow> Some (obj1\<lparr>charAnimPropList := l\<rparr>)))"


subsection \<open>Decoding UTF-8 text\<close>

text \<open>\<open>Unicode::isInvalidByte\<close> and \<open>Unicode::isContinuationByte\<close>.\<close>

definition isInvalidByte :: "u8 \<Rightarrow> bool" where
  "isInvalidByte x = (x = 192 \<or> x = 193 \<or> x \<ge> 245)"

definition isContinuationByte :: "u8 \<Rightarrow> bool" where
  "isContinuationByte x = (x AND 0xc0 = 0x80)"

text \<open>
  What one pass through the body of the loop of \<open>convertToUnicode\<close> can do:
  \<open>input.at\<close> throws \<open>std::out_of_range\<close>, the function returns \<open>false\<close>, or the body
  runs to its end.
\<close>

datatype 'a read = OutOfRange | ReturnFalse | Next 'a

text \<open>
  One continuation byte: \<open>d = input.at(++i); if ((d == 0) || isInvalidByte(d) ||
  !isContinuationByte(d)) return false; r |= (d & 0x3f) << sh;\<close>.
  The state is \<open>r\<close> and the number \<open>k\<close> of \<open>++i\<close> executed in the body so far, so
  that the byte read is at index \<open>i + k + 1\<close>.
\<close>

fun continuation :: "u8 list \<Rightarrow> nat \<Rightarrow> nat \<Rightarrow> (u32 \<times> nat) read \<Rightarrow> (u32 \<times> nat) read" where
  "continuation input i sh (Next (r, k)) =
     (if i + k + 1 < length input then
        (let d = input ! (i + k + 1) in
         if d = 0 \<or> isInvalidByte d \<or> \<not> isContinuationByte d then ReturnFalse
         else Next (r OR push_bit sh (ucast (d AND 0x3f)), k + 1))
      else OutOfRange)"
| "continuation input i sh OutOfRange = OutOfRange"
| "continuation input i sh ReturnFalse = ReturnFalse"

text \<open>The test against overlong forms, \<open>if (r <= minimum) return false; out.push_back(r);\<close>.\<close>

fun push_checked :: "u32 \<Rightarrow> (u32 \<times> nat) read \<Rightarrow> (u32 option \<times> nat) read" where
  "push_checked minimum (Next (r, k)) = (if r \<le> minimum then ReturnFalse else Next (Some r, k))"
| "push_checked minimum OutOfRange = OutOfRange"
| "push_checked minimum ReturnFalse = ReturnFalse"

text \<open>
  The body of the loop at index \<open>i\<close>: the code point pushed (\<open>None\<close> in the final
  \<open>else\<close>, which prints an error and executes \<open>i++\<close>) and the number of increments of
  \<open>i\<close> made by the body.
\<close>

definition decode_at :: "u8 list \<Rightarrow> nat \<Rightarrow> (u32 option \<times> nat) read" where
  "decode_at input i =
     (let d = input ! i in
      if d AND 0x80 = 0 then Next (Some (ucast d), 0)
      else if d AND 0xe0 = 0xc0 then
        push_checked 0x7F
          (continuation input i 0 (Next (push_bit 6 (ucast (d AND 0x1f)), 0)))
      else if d AND 0xf0 = 0xe0 then
        push_checked 0x7FF
          (continuation input i 0 (continuation input i 6
            (Next (push_bit 12 (ucast (d AND 0x0f)), 0))))
      else if d AND 0xf8 = 0xf0 then
        push_checked 0xFFFF
          (continuation input i 0 (continuation input i 6 (continuation input i 12
            (Next (push_bit 18 (ucast (d AND 0x07)), 0)))))
      else if d AND 0xfc = 0xf8 then
        push_checked 0x1FFFFF
          (continuation input i 0 (continuation input i 6 (continuation input i 12
            (continuation input i 18 (Next (push_bit 24 (ucast (d AND 0x03)), 0))))))
      else if d AND 0xfe = 0xfc then
        push_checked 0x3FFFFFF
          (continuation input i 0 (continuation input i 6 (continuation input i 12
            (continuation input i 18 (continuation input i 24
              (Next (push_bit 30 (ucast (d AND 0x01)), 0)))))))
      else Next (None, 1))"

text \<open>The result of a call: an exception, or the returned value.\<close>

datatype 'a outcome = Thrown | Returned 'a

text \<open>
  \<open>for (unsigned int i = 0; i < input.size(); i++)\<close> of \<open>convertToUnicode\<close>, from
  index \<open>i\<close> with the code points pushed so far; the value returned and \<open>out\<close>.
\<close>

function convertToUnicode_from :: "u8 list \<Rightarrow> nat \<Rightarrow> u32 list \<Rightarrow> (bool \<times> u32 list) outcome" where
  "convertToUnicode_from input i out =
     (if i < length input then
        (case decode_at input i of
           OutOfRange \<Rightarrow> Thrown
         | ReturnFalse \<Rightarrow> Returned (False, out)
         | Next (cp, k) \<Rightarrow>
             convertToUnicode_from input (i + k + 1)
               (case cp of None \<Rightarrow> out | Some c \<Rightarrow> out @ [c]))
      else Returned (True, out))"
  by pat_completeness auto
termination
  by (relation "measure (\<lambda>(input, i, out). length input - i)") auto

definition convertToUnicode :: "u8 list \<Rightarrow> (bool \<times> u32 list) outcome" where
  "convertToUnicode input = convertToUnicode_from input 0 []"

text \<open>\<open>Unicode::setUtf8Text(std::string input)\<close>: the object afterwards.\<close>

definition setUtf8Text :: "Unicode \<Rightarrow> u8 list \<Rightarrow> Unicode outcome" where
  "setUtf8Text u input =
     (case convertToUnicode input of
        Thrown \<Rightarrow> Thrown
      | Returned (ok, out) \<Rightarrow>
          Returned (if ok
                    then \<lparr>mUnicodeText = Some out, mUtf8Text = input, mUnicodeLength = length out\<rparr>
                    else u))"

subsection \<open>Gradient data\<close>




subsection \<open>Transform and Layer\<close>

text \<open>
  Modelled from the spec: \<open>VMatrix\<close> (vmatrix.h) is not part of the sources. It is the
  affine matrix of the spec, and the default-constructed \<open>VMatrix{}\<close> is the identity.
\<close>

record VMatrix =
  m11 :: real
  m12 :: real
  m13 :: real
  m21 :: real
  m22 :: real
  m23 :: real
  mtx :: real
  mty :: real
  m33 :: real

definition VMatrix_default :: VMatrix where
  "VMatrix_default =
     \<lparr>m11 = 1, m12 = 0, m13 = 0, m21 = 0, m22 = 1, m23 = 0, mtx = 0, mty = 0, m33 = 1\<rparr>"

text \<open>Modelled from the spec: \<open>VMatrix::map\<close> of a point (vmatrix.h), for an affine matrix.\<close>

definition VMatrix_map :: "VMatrix \<Rightarrow> VPointF \<Rightarrow> VPointF" where
  "VMatrix_map m p =
     \<lparr>mx = mx p * m11 m + my p * m21 m + mtx m, my = mx p * m12 m + my p * m22 m + mty m\<rparr>"

text \<open>\<open>struct Transform::Data\<close>.\<close>

record Transform_Data =
  mRotation :: "real Property"
  mScale :: "VPointF Property"
  mPosition :: "VPointF Property"
  mAnchor :: "VPointF Property"
  mOpacity :: "real Property"

text \<open>
  \<open>class Transform\<close>: the union of the precomputed \<open>StaticData\<close> (opacity and matrix)
  and the pointer to the live \<open>Data\<close>, discriminated by \<open>isStatic()\<close>.
\<close>

datatype Transform = StaticData real VMatrix | Data Transform_Data

text \<open>
  \<open>Transform::matrix\<close> and \<open>Transform::opacity\<close>. \<open>Transform::Data::matrix\<close> is only
  declared in the header (its body is in lottiemodel.cpp, not part of the sources), so it
  is the parameter \<open>dataMatrix\<close>.
\<close>

fun Transform_matrix :: "(Transform_Data \<Rightarrow> int \<Rightarrow> bool \<Rightarrow> VMatrix option) \<Rightarrow> Transform \<Rightarrow> int \<Rightarrow> bool \<Rightarrow> VMatrix option" where
  "Transform_matrix dataMatrix (StaticData mOpacity' mMatrix) frameNo autoOrient = Some mMatrix"
| "Transform_matrix dataMatrix (Data d) frameNo autoOrient = dataMatrix d frameNo autoOrient"

fun Transform_opacity :: "Transform \<Rightarrow> int \<Rightarrow> real option" where
  "Transform_opacity (StaticData mOpacity' mMatrix) frameNo = Some mOpacity'"
| "Transform_opacity (Data d) frameNo = map_option (\<lambda>v. v / 100) (value_float (mOpacity d) frameNo)"

text \<open>\<open>class Layer\<close>: the fields read by \<open>matrix\<close> and \<open>opacity\<close>; \<open>None\<close> is the null \<open>mTransform\<close>.\<close>

record Layer =
  mTransform :: "Transform option"
  mAutoOrient :: bool
  mInFrame :: int
  mOutFrame :: int
  mStartFrame :: int

definition Layer_matrix :: "(Transform_Data \<Rightarrow> int \<Rightarrow> bool \<Rightarrow> VMatrix option) \<Rightarrow> Layer \<Rightarrow> int \<Rightarrow> VMatrix option" where
  "Layer_matrix dataMatrix layer frameNo =
     (case mTransform layer of
        Some transform \<Rightarrow> Transform_matrix dataMatrix transform frameNo (mAutoOrient layer)
      | None \<Rightarrow> Some VMatrix_default)"

definition Layer_opacity :: "Layer \<Rightarrow> int \<Rightarrow> real option" where
  "Layer_opacity layer frameNo =
     (case mTransform layer of
        Some transform \<Rightarrow> Transform_opacity transform frameNo
      | None \<Rightarrow> Some 1)"

subsection \<open>Trim\<close>

text \<open>\<open>struct Trim::Segment\<close>.\<close>

record Segment =
  Segment_start :: real
  Segment_end :: real

text \<open>
  Modelled from the spec: \<open>vCompare\<close> (vglobal.h) is not part of the sources. It is the
  spec's \<open>\<approx>\<close>: the two values differ by less than a tolerance \<open>eps\<close>, a parameter here.
\<close>

definition vCompare :: "real \<Rightarrow> real \<Rightarrow> real \<Rightarrow> bool" where
  "vCompare eps p1 p2 = (\<bar>p1 - p2\<bar> < eps)"

text \<open>\<open>std::fmod\<close>: the remainder of the division truncated towards zero.\<close>

definition fmod :: "real \<Rightarrow> real \<Rightarrow> real" where
  "fmod x y = x - y * real_of_int (if x / y \<ge> 0 then \<lfloor>x / y\<rfloor> else \<lceil>x / y\<rceil>)"

text \<open>
  \<open>Trim::noloop\<close> and \<open>Trim::loop\<close>; a failed \<open>assert\<close> is \<open>None\<close>.
\<close>

definition noloop :: "real \<Rightarrow> real \<Rightarrow> Segment option" where
  "noloop start end =
     (if start \<ge> 0 \<and> end \<ge> 0
      then Some \<lparr>Segment_start = min start end, Segment_end = max start end\<rparr>
      else None)"

definition loop :: "real \<Rightarrow> real \<Rightarrow> Segment option" where
  "loop start end =
     (if start \<ge> 0 \<and> end \<ge> 0
      then Some \<lparr>Segment_start = max start end, Segment_end = min start end\<rparr>
      else None)"

text \<open>\<open>class Trim\<close>.\<close>

record Trim =
  mStart :: "real Property"
  mEnd :: "real Property"
  mOffset :: "real Property"

text \<open>
  The body of \<open>Trim::segment\<close> after the three property reads: \<open>start\<close> and \<open>end\<close> are
  already divided by 100 and \<open>offset\<close> is \<open>fmod(mOffset, 360) / 360\<close>.
\<close>

definition segment_of :: "real \<Rightarrow> real \<Rightarrow> real \<Rightarrow> real \<Rightarrow> Segment option" where
  "segment_of eps start end offset =
     (let diff = \<bar>start - end\<bar> in
      if vCompare eps diff 0 then Some \<lparr>Segment_start = 0, Segment_end = 0\<rparr>
      else if vCompare eps diff 1 then Some \<lparr>Segment_start = 0, Segment_end = 1\<rparr>
      else if offset > 0 then
        (let start = start + offset; end = end + offset in
         if start \<le> 1 \<and> end \<le> 1 then noloop start end
         else if start > 1 \<and> end > 1 then noloop (start - 1) (end - 1)
         else (if start > 1 then loop (start - 1) end else loop start (end - 1)))
      else
        (let start = start + offset; end = end + offset in
         if start \<ge> 0 \<and> end \<ge> 0 then noloop start end
         else if start < 0 \<and> end < 0 then noloop (1 + start) (1 + end)
         else (if start < 0 then loop (1 + start) end else loop start (1 + end))))"

text \<open>\<open>Trim::segment(int frameNo)\<close>.\<close>

definition Trim_segment :: "real \<Rightarrow> Trim \<Rightarrow> int \<Rightarrow> Segment option" where
  "Trim_segment eps trim frameNo =
     (case value_float (mStart trim) frameNo of
        None \<Rightarrow> None
      | Some startV \<Rightarrow>
     (case value_float (mEnd trim) frameNo of
        None \<Rightarrow> None
      | Some endV \<Rightarrow>
     (case value_float (mOffset trim) frameNo of
        None \<Rightarrow> None
      | Some offsetV \<Rightarrow> segment_of eps (startV / 100) (endV / 100) (fmod offsetV 360 / 360))))"


text \<open>
  The wording of the spec for the trim offset, not taken from the source: applying the
  offset makes an endpoint wrap past the range from 0 to 1. The endpoint \<open>v\<close> is a
  percentage and \<open>offsetV\<close> an angle in degrees.
\<close>

definition wraps :: "real \<Rightarrow> real \<Rightarrow> bool" where
  "wraps v offsetV = (v / 100 + fmod offsetV 360 / 360 < 0 \<or> 1 < v / 100 + fmod offsetV 360 / 360)"

subsection \<open>Sample inputs\<close>

text \<open>A track of one segment over the frames 0 to 10, from the value 0 to the value 1.\<close>

definition unit_track :: "real Frame list" where
  "unit_track =
     [\<lparr>Frame_start = 0, Frame_end = 10, Frame_interpolator = None,
       Frame_value = \<lparr>Value_start = 0, Value_end = 1\<rparr>\<rparr>]"

text \<open>A track whose only segment is the default-constructed \<open>Frame\<close> range, 0 to 0.\<close>

definition degenerate_track :: "real Frame list" where
  "degenerate_track =
     [\<lparr>Frame_start = 0, Frame_end = 0, Frame_interpolator = None,
       Frame_value = \<lparr>Value_start = 0, Value_end = 1\<rparr>\<rparr>]"

text \<open>A text document that starts at frame \<open>t\<close>, with stroke width \<open>w\<close> and black colours.\<close>

definition plain_document :: "int \<Rightarrow> real \<Rightarrow> TextDocument" where
  "plain_document t w =
     \<lparr>mTime = t, mSize = 12, mFont = ''F'', mText = Unicode_default,
      mJustification = Justification_Left, mTracking = 0, mLineHeight = 0, mBaselineShift = 0,
      mFillColor = \<lparr>Color_r = 0, Color_g = 0, Color_b = 0\<rparr>,
      mStrokeColor = \<lparr>Color_r = 0, Color_g = 0, Color_b = 0\<rparr>,
      mStrokeWidth = w, mStrokeOverFill = False\<rparr>"

text \<open>A text layer with two documents, cut at the frames 5 and 10, and no animator.\<close>

definition two_cuts :: TextLayerData where
  "two_cuts = \<lparr>mTextDocument = [plain_document 5 1, plain_document 10 2], mTextAnimator = []\<rparr>"

text \<open>Two cubic arcs of four control points each, one open and one closed.\<close>

definition arc_open :: PathData where
  "arc_open = \<lparr>mPoints = [\<lparr>mx = 0, my = 0\<rparr>, \<lparr>mx = 1, my = 2\<rparr>, \<lparr>mx = 2, my = 2\<rparr>, \<lparr>mx = 4, my = 0\<rparr>],
                mClosed = False\<rparr>"

definition arc_closed :: PathData where
  "arc_closed = \<lparr>mPoints = [\<lparr>mx = 0, my = 0\<rparr>, \<lparr>mx = 2, my = 4\<rparr>, \<lparr>mx = 4, my = 4\<rparr>, \<lparr>mx = 8, my = 0\<rparr>],
                  mClosed = True\<rparr>"

text \<open>
  Two paths of a single point: at \<open>x = 1\<close>, and at the float nearest to \<open>0.1\<close>, which is
  \<open>13421773 / 2^27\<close>.
\<close>

definition dot_one :: PathData where
  "dot_one = \<lparr>mPoints = [\<lparr>mx = 1, my = 0\<rparr>], mClosed = False\<rparr>"

definition dot_tenth :: PathData where
  "dot_tenth = \<lparr>mPoints = [\<lparr>mx = 13421773 / 134217728, my = 0\<rparr>], mClosed = False\<rparr>"

text \<open>A path of two control points, which is not a move followed by cubics.\<close>

definition two_points :: PathData where
  "two_points = \<lparr>mPoints = [\<lparr>mx = 0, my = 0\<rparr>, \<lparr>mx = 1, my = 1\<rparr>], mClosed = False\<rparr>"

text \<open>
  A text layer with one document of stroke width 1 and one animator that has no range
  selector and sets the stroke width 5.
\<close>

definition unranged_layer :: TextLayerData where
  "unranged_layer =
     \<lparr>mTextDocument = [plain_document 0 1],
      mTextAnimator =
        [\<lparr>mName = ''A'', mAnimatedProperties = [StrokeWidth (Static 5)], mRangeType = 0,
          mRangeUnit = 0, mRangeStart = Static 0, mRangeEnd = Static 100, mHasRange = False\<rparr>]\<rparr>"

section \<open>Properties of the model\<close>

declare lerp_cubics.simps [simp del] toPath_cubics.simps [simp del] charLoop.simps [simp del]


subsection \<open>Keyframe clamping\<close>

text \<open>
  C1, as amended. For an animated Property with at least one segment, a value query at a
  frame before the first segment's start returns the first segment's start value, and a
  query at or after the last segment's end returns the last segment's end value provided
  the frame lies after the first segment's start. The test against the first segment's
  start comes first in \<open>KeyFrames::value\<close>, so it wins where both apply.
\<close>

theorem Property_value_clamps:
  assumes "frames \<noteq> []"
  shows "(real_of_int frameNo < Frame_start (hd frames) \<longrightarrow>
            Property_value atT dflt (Animated frames) frameNo
              = Some (Value_start (Frame_value (hd frames)))) \<and>
         (Frame_end (last frames) \<le> real_of_int frameNo \<and>
          Frame_start (hd frames) < real_of_int frameNo \<longrightarrow>
            Property_value atT dflt (Animated frames) frameNo
              = Some (Value_end (Frame_value (last frames))))"
  using assms by (simp add: KeyFrames_value_def)

theorem Property_value_clamps_witness:
  "unit_track \<noteq> [] \<and>
   real_of_int (-1) < Frame_start (hd unit_track) \<and>
   Property_value Value_at 0 (Animated unit_track) (-1) = Some 0 \<and>
   Frame_end (last unit_track) \<le> real_of_int 10 \<and>
   Frame_start (hd unit_track) < real_of_int 10 \<and>
   Property_value Value_at 0 (Animated unit_track) 10 = Some 1"
  using Property_value_clamps [of unit_track "-1" Value_at 0]
        Property_value_clamps [of unit_track 10 Value_at 0]
  by (simp add: unit_track_def)

text \<open>
  C1 as stated fails on a track whose first start is not below its last end: frame 0 is
  at the end of the last segment of \<^const>\<open>degenerate_track\<close>, and the query returns
  the start value.
\<close>

theorem Property_value_end_counterexample:
  "Frame_end (last degenerate_track) \<le> real_of_int 0 \<and>
   Property_value Value_at 0 (Animated degenerate_track) 0
     \<noteq> Some (Value_end (Frame_value (last degenerate_track)))"
  by (simp add: degenerate_track_def KeyFrames_value_def)

subsection \<open>The change test\<close>

text \<open>
  C9, as amended. For an animated Property with at least one segment,
  \<open>changed(prevFrame, curFrame)\<close> returns true whenever at least one of the two frames
  lies within the active range, from the first segment's start to the last segment's end;
  it returns false exactly when both frames lie before the first segment's start or both
  lie after the last segment's end. For a static Property it returns false for all frame
  pairs.
\<close>

theorem Property_changed_cases:
  assumes "frames \<noteq> []"
  shows "((Frame_start (hd frames) \<le> real_of_int prevFrame \<and> real_of_int prevFrame \<le> Frame_end (last frames)) \<or>
          (Frame_start (hd frames) \<le> real_of_int curFrame \<and> real_of_int curFrame \<le> Frame_end (last frames))
            \<longrightarrow> Property_changed (Animated frames) prevFrame curFrame = Some True) \<and>
         (Property_changed (Animated frames) prevFrame curFrame = Some False \<longleftrightarrow>
            (real_of_int prevFrame < Frame_start (hd frames) \<and> real_of_int curFrame < Frame_start (hd frames)) \<or>
            (Frame_end (last frames) < real_of_int prevFrame \<and> Frame_end (last frames) < real_of_int curFrame)) \<and>
         Property_changed (Static v) prevFrame curFrame = Some False"
  using assms by (auto simp add: KeyFrames_changed_def Let_def)

theorem Property_changed_cases_witness:
  "unit_track \<noteq> [] \<and>
   Frame_start (hd unit_track) \<le> real_of_int 5 \<and> real_of_int 5 \<le> Frame_end (last unit_track) \<and>
   Property_changed (Animated unit_track) 5 20 = Some True \<and>
   Frame_end (last unit_track) < real_of_int 11 \<and> Frame_end (last unit_track) < real_of_int 20 \<and>
   Property_changed (Animated unit_track) 11 20 = Some False"
  using Property_changed_cases [of unit_track 5 20 "0::real"]
        Property_changed_cases [of unit_track 11 20 "0::real"]
  by (simp add: unit_track_def)

text \<open>
  C9 as stated fails when the two frames lie on opposite sides of the active range:
  neither \<open>-1\<close> nor \<open>11\<close> is within the range 0 to 10 of \<^const>\<open>unit_track\<close>, and the
  test returns true.
\<close>

theorem Property_changed_counterexample:
  "\<not> (Frame_start (hd unit_track) \<le> real_of_int (-1) \<and> real_of_int (-1) \<le> Frame_end (last unit_track)) \<and>
   \<not> (Frame_start (hd unit_track) \<le> real_of_int 11 \<and> real_of_int 11 \<le> Frame_end (last unit_track)) \<and>
   Property_changed (Animated unit_track) (-1) 11 = Some True"
  by (simp add: unit_track_def KeyFrames_changed_def)

subsection \<open>The active text document\<close>

lemma textDocument_scan_first:
  "i < length docs \<Longrightarrow> mTime (docs ! i) \<ge> frameNo \<Longrightarrow> \<forall>j<i. mTime (docs ! j) < frameNo \<Longrightarrow>
   textDocument_scan docs frameNo = Some (docs ! i)"
proof (induction docs arbitrary: i)
  case Nil
  then show ?case by simp
next
  case (Cons d ds)
  show ?case
  proof (cases i)
    case 0
    with Cons.prems show ?thesis by simp
  next
    case (Suc k)
    from Cons.prems Suc have "mTime d < frameNo" by auto
    moreover have "textDocument_scan ds frameNo = Some (ds ! k)"
      using Cons.prems Suc by (intro Cons.IH) auto
    ultimately show ?thesis using Suc by simp
  qed
qed

lemma textDocument_scan_none:
  "\<forall>d\<in>set docs. mTime d < frameNo \<Longrightarrow> textDocument_scan docs frameNo = None"
  by (induction docs) auto

text \<open>
  C8. For every frame number, the active text document of a layer that has documents is
  the first document in stored order whose start frame is greater than or equal to the
  queried frame, and the last document if no document's start frame is.
\<close>

theorem textDocument_next_cut:
  assumes "mTextDocument tld \<noteq> []"
  shows "(\<forall>i<length (mTextDocument tld).
            mTime (mTextDocument tld ! i) \<ge> frameNo \<and>
            (\<forall>j<i. mTime (mTextDocument tld ! j) < frameNo)
            \<longrightarrow> textDocument tld frameNo = Some (mTextDocument tld ! i)) \<and>
         ((\<forall>d\<in>set (mTextDocument tld). mTime d < frameNo)
            \<longrightarrow> textDocument tld frameNo = Some (last (mTextDocument tld)))"
  using assms
  by (auto simp add: textDocument_def textDocument_scan_first textDocument_scan_none)

theorem textDocument_next_cut_witness:
  "mTextDocument two_cuts \<noteq> [] \<and>
   mTime (mTextDocument two_cuts ! 1) \<ge> 7 \<and> mTime (mTextDocument two_cuts ! 0) < 7 \<and>
   textDocument two_cuts 7 = Some (plain_document 10 2) \<and>
   mTime (mTextDocument two_cuts ! 0) < 20 \<and> mTime (mTextDocument two_cuts ! 1) < 20 \<and>
   textDocument two_cuts 20 = Some (plain_document 10 2)"
proof -
  have ne: "mTextDocument two_cuts \<noteq> []"
    by (simp add: two_cuts_def)
  have t0: "mTime (mTextDocument two_cuts ! 0) = 5" and t1: "mTime (mTextDocument two_cuts ! 1) = 10"
    by (simp_all add: two_cuts_def plain_document_def)
  have small: "\<forall>j<1. mTime (mTextDocument two_cuts ! j) < 7"
    using t0 by simp
  have all: "\<forall>d\<in>set (mTextDocument two_cuts). mTime d < 20"
    by (simp add: two_cuts_def plain_document_def)
  have len: "1 < length (mTextDocument two_cuts)"
    by (simp add: two_cuts_def)
  have first: "\<forall>i<length (mTextDocument two_cuts).
            mTime (mTextDocument two_cuts ! i) \<ge> 7 \<and>
            (\<forall>j<i. mTime (mTextDocument two_cuts ! j) < 7)
            \<longrightarrow> textDocument two_cuts 7 = Some (mTextDocument two_cuts ! i)"
    using textDocument_next_cut [OF ne, of 7] by (rule conjunct1)
  have "textDocument two_cuts 7 = Some (mTextDocument two_cuts ! 1)"
    using first [rule_format, of 1] len t1 small by simp
  moreover have "textDocument two_cuts 20 = Some (last (mTextDocument two_cuts))"
    using textDocument_next_cut [OF ne, of 20] all by blast
  ultimately show ?thesis
    using ne t0 t1 all by (simp add: two_cuts_def)
qed

subsection \<open>A layer without transform\<close>

text \<open>
  C10. For a Layer whose transform is absent (null), \<open>matrix(frameNo)\<close> returns the
  default-constructed matrix, which is the identity and maps every point to itself, and
  \<open>opacity(frameNo)\<close> returns 1.0, for every frame number.
\<close>

theorem Layer_no_transform:
  assumes "mTransform layer = None"
  shows "Layer_matrix dataMatrix layer frameNo = Some VMatrix_default \<and>
         VMatrix_map VMatrix_default p = p \<and>
         Layer_opacity layer frameNo = Some 1"
  using assms by (simp add: Layer_matrix_def Layer_opacity_def VMatrix_map_def VMatrix_default_def)

theorem Layer_no_transform_witness:
  "mTransform \<lparr>mTransform = None, mAutoOrient = False, mInFrame = 0, mOutFrame = 60, mStartFrame = 0\<rparr> = None \<and>
   Layer_matrix (\<lambda>d f a. None)
     \<lparr>mTransform = None, mAutoOrient = False, mInFrame = 0, mOutFrame = 60, mStartFrame = 0\<rparr> 30
     = Some \<lparr>m11 = 1, m12 = 0, m13 = 0, m21 = 0, m22 = 1, m23 = 0, mtx = 0, mty = 0, m33 = 1\<rparr> \<and>
   Layer_opacity
     \<lparr>mTransform = None, mAutoOrient = False, mInFrame = 0, mOutFrame = 60, mStartFrame = 0\<rparr> 30
     = Some 1"
  using Layer_no_transform
    [of "\<lparr>mTransform = None, mAutoOrient = False, mInFrame = 0, mOutFrame = 60, mStartFrame = 0\<rparr>"
        "\<lambda>d f a. None" 30 "\<lparr>mx = 0, my = 0\<rparr>"]
  by (simp add: VMatrix_default_def)


subsection \<open>Trim segments\<close>

lemma fmod_unit: "- 1 < fmod x 360 / 360 \<and> fmod x 360 / 360 < 1"
proof (cases "x / 360 \<ge> 0")
  case True
  then have "fmod x 360 / 360 = x / 360 - real_of_int \<lfloor>x / 360\<rfloor>"
    by (simp add: fmod_def diff_divide_distrib)
  moreover have "real_of_int \<lfloor>x / 360\<rfloor> \<le> x / 360" "x / 360 < real_of_int \<lfloor>x / 360\<rfloor> + 1"
    by linarith+
  ultimately show ?thesis
    by linarith
next
  case False
  then have "fmod x 360 / 360 = x / 360 - real_of_int \<lceil>x / 360\<rceil>"
    by (simp add: fmod_def diff_divide_distrib)
  moreover have "x / 360 \<le> real_of_int \<lceil>x / 360\<rceil>" "real_of_int \<lceil>x / 360\<rceil> < x / 360 + 1"
    by linarith+
  ultimately show ?thesis
    by linarith
qed

lemma fmod_small:
  assumes "0 \<le> x" "x < 360"
  shows "fmod x 360 = x"
proof -
  have "\<lfloor>x / 360\<rfloor> = 0"
    by (rule floor_unique) (use assms in simp_all)
  with assms show ?thesis
    by (simp add: fmod_def)
qed

lemma segment_of_cases:
  assumes eps: "0 < eps"
    and s: "0 \<le> s" "s \<le> 1" and e: "0 \<le> e" "e \<le> 1"
    and off: "- 1 < off" "off < 1"
  shows "\<exists>seg. segment_of eps s e off = Some seg \<and>
           (((s + off < 0 \<or> 1 < s + off) \<longleftrightarrow> (e + off < 0 \<or> 1 < e + off))
              \<longrightarrow> Segment_start seg \<le> Segment_end seg) \<and>
           (\<not> vCompare eps (abs (s - e)) 0 \<and> \<not> vCompare eps (abs (s - e)) 1 \<and>
            ((s + off < 0 \<or> 1 < s + off) \<noteq> (e + off < 0 \<or> 1 < e + off))
              \<longrightarrow> Segment_start seg > Segment_end seg)"
proof (cases "vCompare eps (abs (s - e)) 0 \<or> vCompare eps (abs (s - e)) 1")
  case True
  then show ?thesis
    by (auto simp add: segment_of_def Let_def)
next
  case False
  then have ne: "s - e \<noteq> 1" "e - s \<noteq> 1"
    using eps by (auto simp add: vCompare_def)
  show ?thesis
  proof (cases "off > 0")
    case True
    with False s e off ne show ?thesis
      by (auto simp add: segment_of_def Let_def noloop_def loop_def)
  next
    case off0: False
    with False s e off ne show ?thesis
      by (auto simp add: segment_of_def Let_def noloop_def loop_def)
  qed
qed


text \<open>
  C2, as amended. For every frame and a tolerance \<open>eps\<close> of \<open>vCompare\<close> with
  \<open>0 < eps \<le> 1\<close>: \<open>Trim::segment\<close> with start 0 percent, end 100 percent and offset 0
  returns the segment (0, 1); with start equal to end, and any offset, it returns (0, 0).
  For start and end percentages between 0 and 100 a segment is returned, and when
  neither or both endpoints wrap past the range from 0 to 1 it has start \<open>\<le>\<close> end; when
  exactly one endpoint wraps it has start \<open>>\<close> end (loop form), unless the distance of
  start and end is within the tolerance of 0 or of 1, where the segment is (0, 0) or
  (0, 1) whatever the offset.
\<close>

theorem Trim_segment_cases:
  assumes eps: "0 < eps" "eps \<le> 1"
  shows "Trim_segment eps \<lparr>mStart = Static 0, mEnd = Static 100, mOffset = Static 0\<rparr> frameNo
           = Some \<lparr>Segment_start = 0, Segment_end = 1\<rparr> \<and>
         (value_float (mStart trim) frameNo = Some v \<and> value_float (mEnd trim) frameNo = Some v \<and>
          value_float (mOffset trim) frameNo = Some offsetV
            \<longrightarrow> Trim_segment eps trim frameNo = Some \<lparr>Segment_start = 0, Segment_end = 0\<rparr>) \<and>
         (value_float (mStart trim) frameNo = Some startV \<and> 0 \<le> startV \<and> startV \<le> 100 \<and>
          value_float (mEnd trim) frameNo = Some endV \<and> 0 \<le> endV \<and> endV \<le> 100 \<and>
          value_float (mOffset trim) frameNo = Some offsetV
            \<longrightarrow> (\<exists>seg. Trim_segment eps trim frameNo = Some seg \<and>
                   (wraps startV offsetV = wraps endV offsetV
                      \<longrightarrow> Segment_start seg \<le> Segment_end seg) \<and>
                   (\<not> vCompare eps (abs (startV / 100 - endV / 100)) 0 \<and>
                    \<not> vCompare eps (abs (startV / 100 - endV / 100)) 1 \<and>
                    wraps startV offsetV \<noteq> wraps endV offsetV
                      \<longrightarrow> Segment_start seg > Segment_end seg)))"
proof (intro conjI impI)
  show "Trim_segment eps \<lparr>mStart = Static 0, mEnd = Static 100, mOffset = Static 0\<rparr> frameNo
           = Some \<lparr>Segment_start = 0, Segment_end = 1\<rparr>"
    using eps by (simp add: Trim_segment_def value_float_def segment_of_def vCompare_def)
next
  assume "value_float (mStart trim) frameNo = Some v \<and> value_float (mEnd trim) frameNo = Some v \<and>
          value_float (mOffset trim) frameNo = Some offsetV"
  then show "Trim_segment eps trim frameNo = Some \<lparr>Segment_start = 0, Segment_end = 0\<rparr>"
    using eps by (simp add: Trim_segment_def segment_of_def vCompare_def)
next
  assume a: "value_float (mStart trim) frameNo = Some startV \<and> 0 \<le> startV \<and> startV \<le> 100 \<and>
          value_float (mEnd trim) frameNo = Some endV \<and> 0 \<le> endV \<and> endV \<le> 100 \<and>
          value_float (mOffset trim) frameNo = Some offsetV"
  then have seg: "Trim_segment eps trim frameNo =
      segment_of eps (startV / 100) (endV / 100) (fmod offsetV 360 / 360)"
    by (simp add: Trim_segment_def)
  from a have range: "0 \<le> startV / 100" "startV / 100 \<le> 1" "0 \<le> endV / 100" "endV / 100 \<le> 1"
    by simp_all
  from fmod_unit [of offsetV]
  have off: "- 1 < fmod offsetV 360 / 360" "fmod offsetV 360 / 360 < 1"
    by simp_all
  from segment_of_cases [OF eps(1) range off]
  show "\<exists>seg. Trim_segment eps trim frameNo = Some seg \<and>
                   (wraps startV offsetV = wraps endV offsetV
                      \<longrightarrow> Segment_start seg \<le> Segment_end seg) \<and>
                   (\<not> vCompare eps (abs (startV / 100 - endV / 100)) 0 \<and>
                    \<not> vCompare eps (abs (startV / 100 - endV / 100)) 1 \<and>
                    wraps startV offsetV \<noteq> wraps endV offsetV
                      \<longrightarrow> Segment_start seg > Segment_end seg)"
    unfolding seg wraps_def by blast
qed

theorem Trim_segment_cases_witness:
  "(0::real) < 1/1000000 \<and> (1/1000000::real) \<le> 1 \<and>
   Trim_segment (1/1000000) \<lparr>mStart = Static 0, mEnd = Static 100, mOffset = Static 0\<rparr> 0
     = Some \<lparr>Segment_start = 0, Segment_end = 1\<rparr> \<and>
   Trim_segment (1/1000000) \<lparr>mStart = Static 50, mEnd = Static 50, mOffset = Static 270\<rparr> 0
     = Some \<lparr>Segment_start = 0, Segment_end = 0\<rparr> \<and>
   wraps 0 90 = wraps 50 90 \<and>
   (\<exists>seg. Trim_segment (1/1000000) \<lparr>mStart = Static 0, mEnd = Static 50, mOffset = Static 90\<rparr> 0
            = Some seg \<and> Segment_start seg \<le> Segment_end seg) \<and>
   \<not> vCompare (1/1000000) (abs (0 / 100 - 50 / 100)) 0 \<and>
   \<not> vCompare (1/1000000) (abs (0 / 100 - 50 / 100)) 1 \<and>
   wraps 0 270 \<noteq> wraps 50 270 \<and>
   (\<exists>seg. Trim_segment (1/1000000) \<lparr>mStart = Static 0, mEnd = Static 50, mOffset = Static 270\<rparr> 0
            = Some seg \<and> Segment_start seg > Segment_end seg)"
proof -
  have eps: "(0::real) < 1/1000000" "(1/1000000::real) \<le> 1"
    by simp_all
  have w90: "wraps 0 90 = wraps 50 90" and w270: "wraps 0 270 \<noteq> wraps 50 270"
    by (simp_all add: wraps_def fmod_small)
  have nv: "\<not> vCompare (1/1000000) (abs (0 / 100 - 50 / 100)) 0"
    "\<not> vCompare (1/1000000) (abs (0 / 100 - 50 / 100)) 1"
    by (simp_all add: vCompare_def)
  note t1 = Trim_segment_cases [OF eps, of 0
      "\<lparr>mStart = Static 50, mEnd = Static 50, mOffset = Static 270\<rparr>" 50 270 50 50]
  note t2 = Trim_segment_cases [OF eps, of 0
      "\<lparr>mStart = Static 0, mEnd = Static 50, mOffset = Static 90\<rparr>" 0 90 0 50]
  note t3 = Trim_segment_cases [OF eps, of 0
      "\<lparr>mStart = Static 0, mEnd = Static 50, mOffset = Static 270\<rparr>" 0 270 0 50]
  from t1 have a: "Trim_segment (1/1000000) \<lparr>mStart = Static 0, mEnd = Static 100, mOffset = Static 0\<rparr> 0
     = Some \<lparr>Segment_start = 0, Segment_end = 1\<rparr>"
    and b: "Trim_segment (1/1000000) \<lparr>mStart = Static 50, mEnd = Static 50, mOffset = Static 270\<rparr> 0
     = Some \<lparr>Segment_start = 0, Segment_end = 0\<rparr>"
    by (simp_all add: value_float_def)
  from t2 w90 have c: "\<exists>seg. Trim_segment (1/1000000) \<lparr>mStart = Static 0, mEnd = Static 50, mOffset = Static 90\<rparr> 0
            = Some seg \<and> Segment_start seg \<le> Segment_end seg"
    by (auto simp add: value_float_def)
  from t3 w270 nv have d: "\<exists>seg. Trim_segment (1/1000000) \<lparr>mStart = Static 0, mEnd = Static 50, mOffset = Static 270\<rparr> 0
            = Some seg \<and> Segment_start seg > Segment_end seg"
    by (auto simp add: value_float_def)
  from eps a b w90 c nv w270 d show ?thesis
    by (intro conjI)
qed

text \<open>
  C2 as stated fails for the full range with an offset: at start 0 percent, end 100
  percent and offset 90 degrees only the end point wraps, and the segment returned is
  (0, 1), not a loop.
\<close>

theorem Trim_segment_full_counterexample:
  "\<not> wraps 0 90 \<and> wraps 100 90 \<and>
   Trim_segment (1/1000000) \<lparr>mStart = Static 0, mEnd = Static 100, mOffset = Static 90\<rparr> 0
     = Some \<lparr>Segment_start = 0, Segment_end = 1\<rparr> \<and>
   \<not> Segment_start \<lparr>Segment_start = 0, Segment_end = 1\<rparr> > Segment_end \<lparr>Segment_start = 0, Segment_end = 1\<rparr>"
  by (simp add: wraps_def fmod_small Trim_segment_def value_float_def segment_of_def vCompare_def)

subsection \<open>The weight of a range selector\<close>

text \<open>
  For a selector range with \<open>rangeStart \<le> rangeEnd\<close> the weight is the length of the
  part of the character's unit interval that the range covers. Whatever the order of the
  two ends, the weight that is applied (an animator with \<open>progress \<le> 0\<close> is skipped) is
  that length.
\<close>

lemma rangeProgress_applied:
  "max 0 (rangeProgress rangeStartIndex rangeEndIndex i) =
     max 0 (min (real_of_int i + 1) rangeEndIndex - max (real_of_int i) rangeStartIndex)"
  by (auto simp add: rangeProgress_def min_def max_def)

lemma rangeProgress_covered:
  assumes "rangeStartIndex \<le> rangeEndIndex"
  shows "rangeProgress rangeStartIndex rangeEndIndex i =
           max 0 (min (real_of_int i + 1) rangeEndIndex - max (real_of_int i) rangeStartIndex)"
  using assms by (auto simp add: rangeProgress_def min_def max_def)



subsection \<open>The fast path of the text snapshot\<close>

lemma charLoop_one:
  "charLoop tld doc frameNo 1 0 acc =
     map_option (\<lambda>animProp. acc @ [animProp]) (charRecord tld doc frameNo 1 0)"
  by (simp add: charLoop.simps [of tld doc frameNo 1 0] charLoop.simps [of tld doc frameNo 1 1]
        split: option.splits)

text \<open>
  C4, as amended. If the text layer is static or no animator defines a range selector,
  \<open>getTextData\<close> skips the per-character expansion and appends exactly one shared
  character record. The record is the one computed for the character index 0 of a text
  of length 1: it starts from the stroke width, fill colour and stroke colour of the
  selected document and the defaults of the other properties, and every animator of the
  layer is then blended into it in order. Without animators the record holds the
  document's three values directly.
\<close>

theorem getTextData_fast_path:
  assumes fast: "TextLayerData_isStatic tld \<or> \<not> hasRange tld"
    and doc: "textDocument tld frameNo = Some doc"
  shows "getTextData tld obj frameNo =
           map_option
             (\<lambda>animProp. obj\<lparr>fontSize := mSize doc, justification := mJustification doc,
                             lineHeight := mLineHeight doc, baselineShift := mBaselineShift doc,
                             strokeOverFill := mStrokeOverFill doc,
                             charAnimPropList := charAnimPropList obj @ [animProp]\<rparr>)
             (charRecord tld doc frameNo 1 0) \<and>
         (mTextAnimator tld = [] \<longrightarrow>
            charRecord tld doc frameNo 1 0 =
              Some (CharAnimatedProperties_default
                      \<lparr>strokeWidth := mStrokeWidth doc, fillColor := mFillColor doc,
                       strokeColor := mStrokeColor doc\<rparr>))"
  using fast doc
  by (auto simp add: getTextData_def charLoop_one charRecord_def Let_def split: option.splits)

theorem getTextData_fast_path_witness:
  "\<not> hasRange unranged_layer \<and>
   textDocument unranged_layer 0 = Some (plain_document 0 1) \<and>
   map_option charAnimPropList (getTextData unranged_layer TextData_default 0) =
     Some [CharAnimatedProperties_default\<lparr>strokeWidth := 5\<rparr>] \<and>
   mTextAnimator two_cuts = [] \<and>
   textDocument two_cuts 7 = Some (plain_document 10 2) \<and>
   map_option charAnimPropList (getTextData two_cuts TextData_default 7) =
     Some [CharAnimatedProperties_default\<lparr>strokeWidth := 2\<rparr>]"
proof -
  have nr: "TextLayerData_isStatic unranged_layer \<or> \<not> hasRange unranged_layer"
    by (simp add: unranged_layer_def hasRange_def)
  have d0: "textDocument unranged_layer 0 = Some (plain_document 0 1)"
    by (simp add: unranged_layer_def textDocument_def plain_document_def)
  have nr2: "TextLayerData_isStatic two_cuts \<or> \<not> hasRange two_cuts"
    by (simp add: two_cuts_def hasRange_def)
  have d7: "textDocument two_cuts 7 = Some (plain_document 10 2)"
    by (simp add: two_cuts_def textDocument_def plain_document_def)
  have r0: "charRecord unranged_layer (plain_document 0 1) 0 1 0 =
              Some (CharAnimatedProperties_default\<lparr>strokeWidth := 5\<rparr>)"
    by (simp add: charRecord_def unranged_layer_def plain_document_def applyAnimator_def
          value_float_def rangeProgress_def lerp_def CharAnimatedProperties_default_def)
  have e: "mTextAnimator two_cuts = []"
    by (simp add: two_cuts_def)
  from getTextData_fast_path [OF nr d0, of TextData_default] r0
  have "map_option charAnimPropList (getTextData unranged_layer TextData_default 0) =
          Some [CharAnimatedProperties_default\<lparr>strokeWidth := 5\<rparr>]"
    by (simp add: TextData_default_def)
  moreover from getTextData_fast_path [OF nr2 d7, of TextData_default] e
  have "map_option charAnimPropList (getTextData two_cuts TextData_default 7) =
          Some [CharAnimatedProperties_default\<lparr>strokeWidth := 2\<rparr>]"
    by (simp add: TextData_default_def plain_document_def CharAnimatedProperties_default_def)
  ultimately show ?thesis
    using nr d0 e d7 by (simp add: unranged_layer_def hasRange_def)
qed

text \<open>
  C4 as stated fails when an animator without range selector is present: the only
  record of \<^const>\<open>unranged_layer\<close> has the animator's stroke width 5, not the
  document's stroke width 1.
\<close>

theorem getTextData_fast_path_counterexample:
  "\<not> hasRange unranged_layer \<and>
   textDocument unranged_layer 0 = Some (plain_document 0 1) \<and>
   mStrokeWidth (plain_document 0 1) = 1 \<and>
   map_option (\<lambda>obj. map strokeWidth (charAnimPropList obj))
     (getTextData unranged_layer TextData_default 0) = Some [5]"
  by (simp add: getTextData_def charLoop_one charRecord_def unranged_layer_def hasRange_def
        TextLayerData_isStatic_def textDocument_def plain_document_def applyAnimator_def
        value_float_def rangeProgress_def lerp_def TextData_default_def
        CharAnimatedProperties_default_def)

subsection \<open>Float rounding on sample values\<close>

lemma float_round_0: "float_round 0 = 0"
  by (simp add: float_round_def)

lemma float_round_binade:
  assumes "2 powi k \<le> \<bar>x\<bar>" "\<bar>x\<bar> < 2 powi (k + 1)" "- 126 \<le> k"
  shows "float_round x = 2 powi (k - 23) * real_of_int (round_even (x / 2 powi (k - 23)))"
proof -
  have "(0::real) < 2 powi k"
    by (rule zero_less_power_int) simp
  with assms(1) have pos: "0 < \<bar>x\<bar>"
    by linarith
  have p1: "2 powr real_of_int k = 2 powi k" and p2: "2 powr real_of_int (k + 1) = 2 powi (k + 1)"
    by (rule powr_real_of_int'; simp)+
  have "2 powr real_of_int k \<le> \<bar>x\<bar> \<and> \<bar>x\<bar> < 2 powr (real_of_int k + 1)"
    using assms(1,2) p1 p2 by simp
  then have "\<lfloor>log 2 \<bar>x\<bar>\<rfloor> = k"
    using pos by (simp add: floor_log_eq_powr_iff)
  with pos assms(3) show ?thesis
    by (simp add: float_round_def Let_def max_def)
qed

lemma float_round_small:
  "float_round 1 = 1" "float_round 2 = 2" "float_round 4 = 4" "float_round 8 = 8"
  using float_round_binade [of 0 1] float_round_binade [of 1 2]
        float_round_binade [of 2 4] float_round_binade [of 3 8]
  by (simp_all add: round_even_def)

lemma is_float_small:
  "is_float 0" "is_float 1" "is_float 2" "is_float 4" "is_float 8"
  by (simp_all add: is_float_def FLT_MAX_def float_round_0 float_round_small)

lemma blend_coord_0:
  assumes "is_float start"
  shows "blend_coord start end 0 = start"
  using assms by (simp add: blend_coord_def is_float_def float_round_0)

lemma blend_coord_1:
  assumes "is_float (end - start)" "is_float end"
  shows "blend_coord start end 1 = end"
  using assms by (simp add: blend_coord_def is_float_def)



lemma is_float_tenth: "is_float (13421773 / 134217728)"
  using float_round_binade [of "-4" "13421773 / 134217728"]
  by (simp add: round_even_def is_float_def FLT_MAX_def)

lemma blend_coord_tenth: "blend_coord 1 (13421773 / 134217728) 1 = 13421776 / 134217728"
proof -
  have a: "float_round (13421773 / 134217728 - 1) = - (15099494 / 16777216)"
    using float_round_binade [of "-1" "13421773 / 134217728 - 1"]
    by (simp add: round_even_def)
  have b: "float_round (1 * - (15099494 / 16777216)) = - (15099494 / 16777216)"
    using float_round_binade [of "-1" "1 * - (15099494 / 16777216)"]
    by (simp add: round_even_def)
  have c: "float_round (1 + - (15099494 / 16777216)) = 13421776 / 134217728"
    using float_round_binade [of "-4" "1 + - (15099494 / 16777216)"]
    by (simp add: round_even_def)
  show ?thesis
    by (simp only: blend_coord_def a b c)
qed

lemma blend_coord_same: "is_float x \<Longrightarrow> blend_coord x x 1 = x"
  by (simp add: blend_coord_def is_float_def float_round_0)

subsection \<open>Gradient arithmetic\<close>




subsection \<open>Path interpolation\<close>

lemma blend_point_0:
  assumes "is_float (mx p)" "is_float (my p)"
  shows "blend_point p q 0 = p"
  using assms by (simp add: blend_point_def blend_coord_0)

lemma blend_point_1:
  assumes "is_float (mx q - mx p)" "is_float (mx q)" "is_float (my q - my p)" "is_float (my q)"
  shows "blend_point p q 1 = q"
  using assms by (simp add: blend_point_def blend_coord_1)

lemma lerp_cubics_done: "\<not> i < sz \<Longrightarrow> lerp_cubics sp ep t i sz = Some []"
  by (subst lerp_cubics.simps) simp

lemma lerp_cubics_step:
  "i < sz \<Longrightarrow> i + 2 < length sp \<Longrightarrow> i + 2 < length ep \<Longrightarrow>
   lerp_cubics sp ep t i sz =
     map_option (\<lambda>rest. CubicTo (blend_point (sp ! i) (ep ! i) t)
                              (blend_point (sp ! (i + 1)) (ep ! (i + 1)) t)
                              (blend_point (sp ! (i + 2)) (ep ! (i + 2)) t) # rest)
       (lerp_cubics sp ep t (i + 3) sz)"
  by (subst lerp_cubics.simps) (simp split: option.splits)

lemma lerp_cubics_past: "i < sz \<Longrightarrow> \<not> (i + 2 < length sp \<and> i + 2 < length ep) \<Longrightarrow> lerp_cubics sp ep t i sz = None"
  by (subst lerp_cubics.simps) auto

lemma toPath_cubics_done: "\<not> i < sz \<Longrightarrow> toPath_cubics points i sz = Some []"
  by (subst toPath_cubics.simps) simp

lemma toPath_cubics_step:
  "i < sz \<Longrightarrow> i + 2 < length points \<Longrightarrow>
   toPath_cubics points i sz =
     map_option (\<lambda>rest. CubicTo (points ! i) (points ! (i + 1)) (points ! (i + 2)) # rest)
       (toPath_cubics points (i + 3) sz)"
  by (subst toPath_cubics.simps) (simp split: option.splits)

lemma toPath_cubics_past: "i < sz \<Longrightarrow> \<not> i + 2 < length points \<Longrightarrow> toPath_cubics points i sz = None"
  by (subst toPath_cubics.simps) simp

lemma lerp_cubics_defined:
  "length sp = length ep \<Longrightarrow> sz = length sp \<Longrightarrow> i \<le> sz \<Longrightarrow> (sz - i) mod 3 = 0 \<Longrightarrow>
   \<exists>cs. lerp_cubics sp ep t i sz = Some cs \<and> length (VPath_points cs) = sz - i \<and> Close \<notin> set cs"
proof (induction sp ep t i sz rule: lerp_cubics.induct)
  case (1 sp ep t i sz)
  show ?case
  proof (cases "i < sz")
    case False
    with "1.prems" show ?thesis
      by (simp add: lerp_cubics_done VPath_points_def)
  next
    case True
    with "1.prems" have three: "i + 3 \<le> sz" "(sz - (i + 3)) mod 3 = 0"
      by presburger+
    with "1.prems" have inb: "i + 2 < length sp \<and> i + 2 < length ep"
      by simp
    from "1.IH" [OF True inb "1.prems"(1,2) three]
    obtain cs where cs: "lerp_cubics sp ep t (i + 3) sz = Some cs"
      "length (VPath_points cs) = sz - (i + 3)" "Close \<notin> set cs"
      by blast
    with True inb three show ?thesis
      by (simp add: lerp_cubics_step VPath_points_def)
  qed
qed

lemma lerp_cubics_at_0:
  "length sp = length ep \<Longrightarrow> \<forall>j<length sp. blend_point (sp ! j) (ep ! j) 0 = sp ! j \<Longrightarrow>
   lerp_cubics sp ep 0 i sz = toPath_cubics sp i sz"
proof (induction sp ep "0::real" i sz rule: lerp_cubics.induct)
  case (1 sp ep i sz)
  consider "\<not> i < sz" | "i < sz" "\<not> i + 2 < length sp" | "i < sz" "i + 2 < length sp"
    by blast
  then show ?case
  proof cases
    case 1
    then show ?thesis by (simp add: lerp_cubics_done toPath_cubics_done)
  next
    case 2
    then show ?thesis by (simp add: lerp_cubics_past toPath_cubics_past)
  next
    case 3
    with "1.prems" have inb: "i + 2 < length sp \<and> i + 2 < length ep" by simp
    from inb "1.prems"(2) have pts: "blend_point (sp ! i) (ep ! i) 0 = sp ! i"
      "blend_point (sp ! (i + 1)) (ep ! (i + 1)) 0 = sp ! (i + 1)"
      "blend_point (sp ! (i + 2)) (ep ! (i + 2)) 0 = sp ! (i + 2)"
      by simp_all
    from "1.hyps" [OF 3(1) inb "1.prems"] 3 inb pts show ?thesis
      by (simp add: lerp_cubics_step toPath_cubics_step)
  qed
qed

lemma lerp_cubics_at_1:
  "length sp = length ep \<Longrightarrow> \<forall>j<length sp. blend_point (sp ! j) (ep ! j) 1 = ep ! j \<Longrightarrow>
   lerp_cubics sp ep 1 i sz = toPath_cubics ep i sz"
proof (induction sp ep "1::real" i sz rule: lerp_cubics.induct)
  case (1 sp ep i sz)
  consider "\<not> i < sz" | "i < sz" "\<not> i + 2 < length sp" | "i < sz" "i + 2 < length sp"
    by blast
  then show ?case
  proof cases
    case 1
    then show ?thesis by (simp add: lerp_cubics_done toPath_cubics_done)
  next
    case 2
    with "1.prems" show ?thesis by (simp add: lerp_cubics_past toPath_cubics_past)
  next
    case 3
    with "1.prems" have inb: "i + 2 < length sp \<and> i + 2 < length ep" by simp
    from inb "1.prems"(2) have pts: "blend_point (sp ! i) (ep ! i) 1 = ep ! i"
      "blend_point (sp ! (i + 1)) (ep ! (i + 1)) 1 = ep ! (i + 1)"
      "blend_point (sp ! (i + 2)) (ep ! (i + 2)) 1 = ep ! (i + 2)"
      by simp_all
    from "1.hyps" [OF 3(1) inb "1.prems"] 3 inb pts show ?thesis
      by (simp add: lerp_cubics_step toPath_cubics_step)
  qed
qed

lemma lerp_cubics_1_4:
  "length sp = 4 \<Longrightarrow> length ep = 4 \<Longrightarrow>
   lerp_cubics sp ep t (Suc 0) (Suc (Suc (Suc (Suc 0)))) =
     Some [CubicTo (blend_point (sp ! Suc 0) (ep ! Suc 0) t)
                   (blend_point (sp ! Suc (Suc 0)) (ep ! Suc (Suc 0)) t)
                   (blend_point (sp ! Suc (Suc (Suc 0))) (ep ! Suc (Suc (Suc 0))) t)]"
  by (simp add: lerp_cubics_step lerp_cubics_done)

lemma toPath_cubics_1_4:
  "length points = 4 \<Longrightarrow>
   toPath_cubics points (Suc 0) (Suc (Suc (Suc (Suc 0)))) =
     Some [CubicTo (points ! Suc 0) (points ! Suc (Suc 0)) (points ! Suc (Suc (Suc 0)))]"
  by (simp add: toPath_cubics_step toPath_cubics_done)

lemma arc_floats:
  "\<forall>i<length (mPoints arc_open).
     is_float (mx (mPoints arc_open ! i)) \<and> is_float (my (mPoints arc_open ! i)) \<and>
     \<bar>float_round (mx (mPoints arc_closed ! i) - mx (mPoints arc_open ! i))\<bar> \<le> FLT_MAX \<and>
     \<bar>float_round (my (mPoints arc_closed ! i) - my (mPoints arc_open ! i))\<bar> \<le> FLT_MAX"
  "\<forall>i<length (mPoints arc_open).
     is_float (mx (mPoints arc_closed ! i)) \<and> is_float (my (mPoints arc_closed ! i)) \<and>
     is_float (mx (mPoints arc_closed ! i) - mx (mPoints arc_open ! i)) \<and>
     is_float (my (mPoints arc_closed ! i) - my (mPoints arc_open ! i))"
  by (simp_all add: arc_open_def arc_closed_def less_Suc_eq is_float_small float_round_0
        float_round_small FLT_MAX_def)

text \<open>
  C5, as amended. For any two keyframe paths with equal control-point counts of the form
  \<open>3k + 1\<close> (a move followed by cubics), \<open>PathData::lerp\<close> produces a result path with
  the same point count, closed exactly when the start path is closed. At \<open>t = 0\<close> the
  result is the start path exactly (for float coordinates whose differences stay within
  the float range). At \<open>t = 1\<close> the result has the closedness of the start path, and
  its points are the end points where every coordinate difference \<open>end - start\<close> is
  exactly a float; where a difference is rounded they are the end points only up to that
  rounding.
\<close>

theorem PathData_lerp_endpoints:
  assumes len: "length (mPoints a) = length (mPoints b)"
    and cubic: "length (mPoints a) mod 3 = 1"
  shows "(\<exists>res. PathData_lerp a b t = Some res \<and>
                length (VPath_points res) = length (mPoints a) \<and>
                (VPath_closed res \<longleftrightarrow> mClosed a)) \<and>
         ((\<forall>i<length (mPoints a).
             is_float (mx (mPoints a ! i)) \<and> is_float (my (mPoints a ! i)) \<and>
             \<bar>float_round (mx (mPoints b ! i) - mx (mPoints a ! i))\<bar> \<le> FLT_MAX \<and>
             \<bar>float_round (my (mPoints b ! i) - my (mPoints a ! i))\<bar> \<le> FLT_MAX)
            \<longrightarrow> PathData_lerp a b 0 = PathData_toPath a) \<and>
         ((\<forall>i<length (mPoints a).
             is_float (mx (mPoints b ! i)) \<and> is_float (my (mPoints b ! i)) \<and>
             is_float (mx (mPoints b ! i) - mx (mPoints a ! i)) \<and>
             is_float (my (mPoints b ! i) - my (mPoints a ! i)))
            \<longrightarrow> PathData_lerp a b 1 = PathData_toPath (b\<lparr>mClosed := mClosed a\<rparr>))"
proof (intro conjI impI)
  from cubic have nea: "mPoints a \<noteq> []" by auto
  with len have neb: "mPoints b \<noteq> []" by auto
  from cubic have one: "1 \<le> length (mPoints a)" "(length (mPoints a) - 1) mod 3 = 0"
    by presburger+
  from nea have zero: "0 < length (mPoints a)" by simp
  show "\<exists>res. PathData_lerp a b t = Some res \<and>
                length (VPath_points res) = length (mPoints a) \<and>
                (VPath_closed res \<longleftrightarrow> mClosed a)"
  proof -
    from lerp_cubics_defined [OF len refl one, of t]
    obtain cs where cs: "lerp_cubics (mPoints a) (mPoints b) t 1 (length (mPoints a)) = Some cs"
      "length (VPath_points cs) = length (mPoints a) - 1" "Close \<notin> set cs"
      by blast
    with nea neb len one show ?thesis
      by (simp add: PathData_lerp_def VPath_points_def VPath_closed_def)
  qed
  {
    assume h: "\<forall>i<length (mPoints a).
             is_float (mx (mPoints a ! i)) \<and> is_float (my (mPoints a ! i)) \<and>
             \<bar>float_round (mx (mPoints b ! i) - mx (mPoints a ! i))\<bar> \<le> FLT_MAX \<and>
             \<bar>float_round (my (mPoints b ! i) - my (mPoints a ! i))\<bar> \<le> FLT_MAX"
    then have pts: "\<forall>j<length (mPoints a). blend_point (mPoints a ! j) (mPoints b ! j) 0 = mPoints a ! j"
      by (simp add: blend_point_0)
    with zero have p0: "blend_point (mPoints a ! 0) (mPoints b ! 0) 0 = mPoints a ! 0"
      by blast
    show "PathData_lerp a b 0 = PathData_toPath a"
      using nea neb len p0
      by (simp add: PathData_lerp_def PathData_toPath_def lerp_cubics_at_0 [OF len pts]
            cong: option.case_cong)
  }
  {
    assume h: "\<forall>i<length (mPoints a).
             is_float (mx (mPoints b ! i)) \<and> is_float (my (mPoints b ! i)) \<and>
             is_float (mx (mPoints b ! i) - mx (mPoints a ! i)) \<and>
             is_float (my (mPoints b ! i) - my (mPoints a ! i))"
    then have pts: "\<forall>j<length (mPoints a). blend_point (mPoints a ! j) (mPoints b ! j) 1 = mPoints b ! j"
      by (simp add: blend_point_1)
    with zero have p0: "blend_point (mPoints a ! 0) (mPoints b ! 0) 1 = mPoints b ! 0"
      by blast
    show "PathData_lerp a b 1 = PathData_toPath (b\<lparr>mClosed := mClosed a\<rparr>)"
      using nea neb len p0
      by (simp add: PathData_lerp_def PathData_toPath_def lerp_cubics_at_1 [OF len pts]
            cong: option.case_cong)
  }
qed

theorem PathData_lerp_endpoints_witness:
  "length (mPoints arc_open) = length (mPoints arc_closed) \<and>
   length (mPoints arc_open) mod 3 = 1 \<and>
   (\<exists>res. PathData_lerp arc_open arc_closed (1/2) = Some res \<and>
          length (VPath_points res) = 4 \<and> \<not> VPath_closed res) \<and>
   PathData_lerp arc_open arc_closed 0 = PathData_toPath arc_open \<and>
   PathData_lerp arc_open arc_closed 1 = PathData_toPath (arc_closed\<lparr>mClosed := False\<rparr>)"
proof -
  have len: "length (mPoints arc_open) = length (mPoints arc_closed)"
    and cubic: "length (mPoints arc_open) mod 3 = 1"
    by (simp_all add: arc_closed_def arc_open_def)
  have four: "length (mPoints arc_open) = 4" and cl: "mClosed arc_open = False"
    by (simp_all add: arc_open_def)
  from PathData_lerp_endpoints [OF len cubic, of "1/2"] arc_floats len cubic four cl show ?thesis
    by simp
qed

text \<open>
  C5 as stated fails when the two paths differ in closedness: from the open arc to the
  closed arc of equal point count the result at \<open>t = 1\<close> is not closed, and so is not
  the end path. It fails at \<open>t = 1\<close> where a difference is rounded: from \<open>x = 1\<close> to the
  float nearest to \<open>0.1\<close>, which is \<open>13421773 / 2^27\<close>, the result is
  \<open>13421776 / 2^27\<close>. It also fails for a point count that is not of the form
  \<open>3k + 1\<close>, where the loop reads past the end of both vectors.
\<close>

theorem PathData_lerp_closed_counterexample:
  "length (mPoints arc_open) = length (mPoints arc_closed) \<and>
   PathData_lerp arc_open arc_closed 1 =
     Some [MoveTo \<lparr>mx = 0, my = 0\<rparr>,
           CubicTo \<lparr>mx = 2, my = 4\<rparr> \<lparr>mx = 4, my = 4\<rparr> \<lparr>mx = 8, my = 0\<rparr>] \<and>
   PathData_toPath arc_closed =
     Some [MoveTo \<lparr>mx = 0, my = 0\<rparr>,
           CubicTo \<lparr>mx = 2, my = 4\<rparr> \<lparr>mx = 4, my = 4\<rparr> \<lparr>mx = 8, my = 0\<rparr>, Close] \<and>
   PathData_lerp arc_open arc_closed 1 \<noteq> PathData_toPath arc_closed \<and>
   length (mPoints dot_one) = length (mPoints dot_tenth) \<and>
   is_float 1 \<and> is_float (13421773 / 134217728) \<and>
   PathData_lerp dot_one dot_tenth 1 = Some [MoveTo \<lparr>mx = 13421776 / 134217728, my = 0\<rparr>] \<and>
   PathData_toPath dot_tenth = Some [MoveTo \<lparr>mx = 13421773 / 134217728, my = 0\<rparr>] \<and>
   PathData_lerp two_points two_points 1 = None"
  by (simp add: PathData_lerp_def PathData_toPath_def arc_open_def arc_closed_def two_points_def
        dot_one_def dot_tenth_def lerp_cubics_1_4 toPath_cubics_1_4 lerp_cubics_past
        lerp_cubics_done toPath_cubics_done blend_point_def blend_coord_tenth blend_coord_same
        blend_coord_1 is_float_small is_float_tenth)

subsection \<open>Decoding malformed text\<close>

text \<open>
  C6 says that for every input string given to \<open>Unicode::setUtf8Text\<close> an invalid byte
  sequence makes the decode fail without throwing, and that the text is then left unset.
  The code does so for a byte that is not a continuation byte where one is due (third
  input below, the object stays as it was). It does not for a sequence cut short by the
  end of the input, where \<open>input.at(++i)\<close> throws \<open>std::out_of_range\<close> (first input),
  nor for a byte that cannot start a sequence, which is only reported and skipped, so
  that the decode succeeds and the text is set (second input).
\<close>

theorem setUtf8Text_invalid_input:
  "setUtf8Text Unicode_default [0xC3] = Thrown \<and>
   setUtf8Text Unicode_default [0x80] =
     Returned \<lparr>mUnicodeText = Some [], mUtf8Text = [0x80], mUnicodeLength = 0\<rparr> \<and>
   setUtf8Text Unicode_default [0xC3, 0x41] = Returned Unicode_default"
  by (simp add: setUtf8Text_def convertToUnicode_def decode_at_def isInvalidByte_def isContinuationByte_def)

end
